theory Spec2Isabelle
  imports
    Complex_Main
    "HOL-Library.Sublist"
    "HOL-Library.Multiset"
    "HOL-Library.Char_ord"
    "HOL-Library.List_Lexorder"
begin

section \<open>JavaScript values\<close>

text \<open>
  The endpoint hands the parsed JSON body of a request to the server untyped, so
  requests and tool arguments are JSON-shaped JavaScript values. A \<open>number\<close> is a
  double: only whether it is NaN, infinite or finite (and, for truthiness, zero) is ever
  inspected by the code, so a finite number carries its value as a rational and the two
  zeros are identified. An object is the list of its own properties, each key once, and
  inherits from \<open>Object.prototype\<close>; an array is the list of its elements. A string is
  the UTF-8 encoding of a well-formed text.
\<close>

datatype number = NaN | PosInfinity | NegInfinity | Finite rat

datatype jsvalue =
    Undefined
  | Null
  | Bool bool
  | Num number
  | Str string
  | Arr "jsvalue list"
  | Obj "(string \<times> jsvalue) list"

text \<open>
  A thrown value: an \<open>Error\<close> object (a \<open>TypeError\<close> included) with its message, or
  any other value.
\<close>

datatype thrown = Error string | Raised jsvalue

text \<open>
  Built-ins of the JavaScript runtime whose results are not computed by this repository
  and depend on floating point or on Unicode tables are parameters of the model:
  \<open>Number(text)\<close>, the decimal rendering of a finite number,
  \<open>String.prototype.localeCompare\<close> and \<open>String.prototype.toLowerCase\<close>.
\<close>

record runtime =
  Number_of :: "string \<Rightarrow> number"
  finiteToString :: "rat \<Rightarrow> string"
  localeCompare :: "string \<Rightarrow> string \<Rightarrow> int"
  toLowerCase :: "string \<Rightarrow> string"

definition isNaN :: "number \<Rightarrow> bool" where
  "isNaN n = (n = NaN)"

definition isFinite :: "number \<Rightarrow> bool" where
  "isFinite n = (case n of Finite q \<Rightarrow> True | _ \<Rightarrow> False)"

fun typeof :: "jsvalue \<Rightarrow> string" where
  "typeof Undefined = ''undefined''"
| "typeof Null = ''object''"
| "typeof (Bool b) = ''boolean''"
| "typeof (Num n) = ''number''"
| "typeof (Str s) = ''string''"
| "typeof (Arr vs) = ''object''"
| "typeof (Obj ps) = ''object''"

text \<open>ToBoolean: what \<open>if (v)\<close>, \<open>v && e\<close> and \<open>v || e\<close> test.\<close>

fun truthy :: "jsvalue \<Rightarrow> bool" where
  "truthy Undefined = False"
| "truthy Null = False"
| "truthy (Bool b) = b"
| "truthy (Num n) = (n \<noteq> NaN \<and> n \<noteq> Finite 0)"
| "truthy (Str s) = (s \<noteq> [])"
| "truthy (Arr vs) = True"
| "truthy (Obj ps) = True"

text \<open>
  Property read \<open>v.k\<close> for the keys the server reads (\<open>id\<close>, \<open>method\<close>, \<open>params\<close>,
  \<open>name\<close>, \<open>arguments\<close> and the tool arguments): none of them is inherited, so only
  an object's own property has a value. Reading a property of \<open>null\<close> or \<open>undefined\<close>
  throws; the callers that can meet one test for it.
\<close>

fun get_prop :: "jsvalue \<Rightarrow> string \<Rightarrow> jsvalue" where
  "get_prop (Obj ps) k = (case map_of ps k of Some v \<Rightarrow> v | None \<Rightarrow> Undefined)"
| "get_prop v k = Undefined"

subsection \<open>Strings\<close>

text \<open>
  The white space \<open>String.prototype.trim\<close> strips (WhiteSpace and LineTerminator of
  ECMAScript), in UTF-8: U+0009 to U+000D, U+0020, U+00A0, U+1680, U+2000 to U+200A,
  U+2028, U+2029, U+202F, U+205F, U+3000 and U+FEFF.
\<close>

definition white_space :: "string list" where
  "white_space =
     [[CHR 0x09], [CHR 0x0A], [CHR 0x0B], [CHR 0x0C], [CHR 0x0D], [CHR 0x20],
      [CHR 0xC2, CHR 0xA0],
      [CHR 0xE1, CHR 0x9A, CHR 0x80],
      [CHR 0xE2, CHR 0x80, CHR 0x80], [CHR 0xE2, CHR 0x80, CHR 0x81],
      [CHR 0xE2, CHR 0x80, CHR 0x82], [CHR 0xE2, CHR 0x80, CHR 0x83],
      [CHR 0xE2, CHR 0x80, CHR 0x84], [CHR 0xE2, CHR 0x80, CHR 0x85],
      [CHR 0xE2, CHR 0x80, CHR 0x86], [CHR 0xE2, CHR 0x80, CHR 0x87],
      [CHR 0xE2, CHR 0x80, CHR 0x88], [CHR 0xE2, CHR 0x80, CHR 0x89],
      [CHR 0xE2, CHR 0x80, CHR 0x8A],
      [CHR 0xE2, CHR 0x80, CHR 0xA8], [CHR 0xE2, CHR 0x80, CHR 0xA9],
      [CHR 0xE2, CHR 0x80, CHR 0xAF],
      [CHR 0xE2, CHR 0x81, CHR 0x9F],
      [CHR 0xE3, CHR 0x80, CHR 0x80],
      [CHR 0xEF, CHR 0xBB, CHR 0xBF]]"

text \<open>Dropping every leading occurrence of one of the byte sequences \<open>ws\<close>.\<close>

fun strip :: "string list \<Rightarrow> string \<Rightarrow> string" where
  "strip ws [] = []"
| "strip ws (c # cs) =
     (case find (\<lambda>w. w \<noteq> [] \<and> take (length w) (c # cs) = w) ws of
        None \<Rightarrow> c # cs
      | Some w \<Rightarrow> strip ws (drop (length w - 1) cs))"

definition trim :: "string \<Rightarrow> string" where
  "trim s = rev (strip (map rev white_space) (rev (strip white_space s)))"

fun join :: "string \<Rightarrow> string list \<Rightarrow> string" where
  "join sep [] = []"
| "join sep [x] = x"
| "join sep (x # y # ys) = x @ sep @ join sep (y # ys)"

text \<open>\<open>text.split(sep)\<close> for a one-character separator.\<close>

fun split_on :: "char \<Rightarrow> string \<Rightarrow> string list" where
  "split_on sep [] = [[]]"
| "split_on sep (c # cs) =
     (if c = sep then [] # split_on sep cs
      else (case split_on sep cs of
              [] \<Rightarrow> [[c]]
            | p # ps \<Rightarrow> (c # p) # ps))"

definition digit_char :: "nat \<Rightarrow> char" where
  "digit_char d =
     (if d = 0 then CHR ''0'' else if d = 1 then CHR ''1'' else if d = 2 then CHR ''2''
      else if d = 3 then CHR ''3'' else if d = 4 then CHR ''4'' else if d = 5 then CHR ''5''
      else if d = 6 then CHR ''6'' else if d = 7 then CHR ''7'' else if d = 8 then CHR ''8''
      else CHR ''9'')"

text \<open>The decimal rendering of an array length or index.\<close>

fun string_of_nat :: "nat \<Rightarrow> string" where
  "string_of_nat n =
     (if n < 10 then [digit_char n]
      else string_of_nat (n div 10) @ [digit_char (n mod 10)])"

declare string_of_nat.simps [simp del]

subsection \<open>ToString\<close>

definition numberToString :: "runtime \<Rightarrow> number \<Rightarrow> string" where
  "numberToString R n =
     (case n of
        NaN \<Rightarrow> ''NaN''
      | PosInfinity \<Rightarrow> ''Infinity''
      | NegInfinity \<Rightarrow> ''-Infinity''
      | Finite q \<Rightarrow> finiteToString R q)"

text \<open>The results of a list of conversions, or the first value thrown.\<close>

fun collect :: "(thrown + 'a) list \<Rightarrow> thrown + 'a list" where
  "collect [] = Inr []"
| "collect (x # xs) =
     (case x of
        Inl e \<Rightarrow> Inl e
      | Inr v \<Rightarrow> (case collect xs of Inl e \<Rightarrow> Inl e | Inr vs \<Rightarrow> Inr (v # vs)))"

text \<open>
  ToString, as a template literal \<open>`${v}`\<close> and \<open>String(v)\<close> apply it. An array is
  joined with commas, \<open>null\<close> and \<open>undefined\<close> elements giving the empty text. An
  object is converted by its \<open>toString\<close>: the inherited one yields "[object Object]",
  but an own property of that name parsed from JSON is not callable, \<open>valueOf\<close> does not
  yield a primitive either, and the conversion throws a \<open>TypeError\<close>.
\<close>

fun toStr :: "runtime \<Rightarrow> jsvalue \<Rightarrow> thrown + string" where
  "toStr R Undefined = Inr ''undefined''"
| "toStr R Null = Inr ''null''"
| "toStr R (Bool b) = Inr (if b then ''true'' else ''false'')"
| "toStr R (Num n) = Inr (numberToString R n)"
| "toStr R (Str s) = Inr s"
| "toStr R (Arr vs) =
     (case collect (map (\<lambda>v. if v = Null \<or> v = Undefined then Inr [] else toStr R v) vs) of
        Inl e \<Rightarrow> Inl e
      | Inr ss \<Rightarrow> Inr (join '','' ss))"
| "toStr R (Obj ps) =
     (if map_of ps ''toString'' \<noteq> None
      then Inl (Error ''Cannot convert object to primitive value'')
      else Inr ''[object Object]'')"

text \<open>\<open>error instanceof Error ? error.message : String(error)\<close>.\<close>

definition error_text :: "runtime \<Rightarrow> thrown \<Rightarrow> thrown + string" where
  "error_text R e = (case e of Error message \<Rightarrow> Inr message | Raised v \<Rightarrow> toStr R v)"

subsection \<open>JSON.stringify\<close>

definition hex_char :: "nat \<Rightarrow> char" where
  "hex_char d =
     (if d < 10 then digit_char d
      else if d = 10 then CHR ''a'' else if d = 11 then CHR ''b'' else if d = 12 then CHR ''c''
      else if d = 13 then CHR ''d'' else if d = 14 then CHR ''e'' else CHR ''f'')"

definition quote_char :: "char \<Rightarrow> string" where
  "quote_char c =
     (if c = CHR 0x08 then [CHR 0x5C, CHR ''b'']
      else if c = CHR 0x09 then [CHR 0x5C, CHR ''t'']
      else if c = CHR 0x0A then [CHR 0x5C, CHR ''n'']
      else if c = CHR 0x0C then [CHR 0x5C, CHR ''f'']
      else if c = CHR 0x0D then [CHR 0x5C, CHR ''r'']
      else if c = CHR 0x22 then [CHR 0x5C, CHR 0x22]
      else if c = CHR 0x5C then [CHR 0x5C, CHR 0x5C]
      else if (of_char c :: nat) < 32
        then [CHR 0x5C, CHR ''u'', CHR ''0'', CHR ''0'',
              hex_char (of_char c div 16), hex_char (of_char c mod 16)]
      else [c])"

definition quote :: "string \<Rightarrow> string" where
  "quote s = CHR 0x22 # concat (map quote_char s) @ [CHR 0x22]"

text \<open>
  \<open>JSON.stringify(v)\<close>; \<open>None\<close> is the result \<open>undefined\<close>. A JSON-shaped value has
  no callable \<open>toJSON\<close> and no cycle, so the rendering never throws.
\<close>

fun JSON_stringify :: "runtime \<Rightarrow> jsvalue \<Rightarrow> string option" where
  "JSON_stringify R Undefined = None"
| "JSON_stringify R Null = Some ''null''"
| "JSON_stringify R (Bool b) = Some (if b then ''true'' else ''false'')"
| "JSON_stringify R (Num n) = Some (if isFinite n then numberToString R n else ''null'')"
| "JSON_stringify R (Str s) = Some (quote s)"
| "JSON_stringify R (Arr vs) =
     Some (''['' @ join '',''
             (map (\<lambda>v. case JSON_stringify R v of None \<Rightarrow> ''null'' | Some s \<Rightarrow> s) vs) @ '']'')"
| "JSON_stringify R (Obj ps) =
     Some (''{'' @ join '',''
             (concat (map (\<lambda>(k, v). case JSON_stringify R v of
                                       None \<Rightarrow> []
                                     | Some s \<Rightarrow> [quote k @ '':'' @ s]) ps)) @ ''}'')"

definition stringified :: "runtime \<Rightarrow> jsvalue \<Rightarrow> string" where
  "stringified R v = (case JSON_stringify R v of None \<Rightarrow> ''undefined'' | Some s \<Rightarrow> s)"

section \<open>ValidationHelper\<close>

definition validateDeviceId :: "jsvalue \<Rightarrow> thrown + string" where
  "validateDeviceId deviceId =
     (case deviceId of
        Str s \<Rightarrow> if length s = 0 then Inl (Error ''Device ID must be a non-empty string'')
                 else Inr s
      | _ \<Rightarrow> Inl (Error ''Device ID must be a non-empty string''))"

definition validateCapability :: "jsvalue \<Rightarrow> thrown + string" where
  "validateCapability capability =
     (case capability of
        Str s \<Rightarrow> if length s = 0 then Inl (Error ''Capability must be a non-empty string'')
                 else Inr s
      | _ \<Rightarrow> Inl (Error ''Capability must be a non-empty string''))"

definition validateCapabilityValue :: "runtime \<Rightarrow> jsvalue \<Rightarrow> thrown + jsvalue" where
  "validateCapabilityValue R v =
     (case v of
        Null \<Rightarrow> Inl (Error ''Capability value cannot be null or undefined'')
      | Undefined \<Rightarrow> Inl (Error ''Capability value cannot be null or undefined'')
      | Bool b \<Rightarrow> Inr (Bool b)
      | Num n \<Rightarrow>
          if \<not> isFinite n then Inl (Error ''Capability value cannot be NaN or Infinity'')
          else Inr (Num n)
      | Str s \<Rightarrow>
          if length s = 0 then Inl (Error ''Capability value cannot be an empty string'')
          else if s = ''true'' then Inr (Bool True)
          else if s = ''false'' then Inr (Bool False)
          else (let trimmed = trim s in
                if length trimmed > 0 \<and> \<not> isNaN (Number_of R trimmed)
                then Inr (Num (Number_of R trimmed))
                else Inr (Str s))
      | _ \<Rightarrow>
          Inl (Error (''Invalid capability value type: expected string, number, or boolean, got ''
                      @ typeof v)))"

definition validateFlowId :: "jsvalue \<Rightarrow> thrown + string" where
  "validateFlowId flowId =
     (case flowId of
        Str s \<Rightarrow> if length s = 0 then Inl (Error ''Flow ID must be a non-empty string'')
                 else Inr s
      | _ \<Rightarrow> Inl (Error ''Flow ID must be a non-empty string''))"

definition sanitizeZoneName :: "jsvalue \<Rightarrow> thrown + string option" where
  "sanitizeZoneName zoneName =
     (case zoneName of
        Null \<Rightarrow> Inr None
      | Undefined \<Rightarrow> Inr None
      | Str s \<Rightarrow> Inr (Some (trim s))
      | _ \<Rightarrow> Inl (Error ''Zone name must be a string''))"

section \<open>MCPHelper: rendering\<close>

definition nl :: string where
  "nl = [CHR 0x0A]"

text \<open>\<open>x || d\<close> for a text that may be absent: absent and empty texts are falsy.\<close>

definition or_default :: "string option \<Rightarrow> string \<Rightarrow> string" where
  "or_default x d = (case x of None \<Rightarrow> d | Some s \<Rightarrow> if s = [] then d else s)"

definition yes_no :: "bool \<Rightarrow> string" where
  "yes_no b = (if b then ''Yes'' else ''No'')"

record DeviceInfo =
  info_id :: string
  info_name :: string
  info_zone :: string
  info_class :: string
  info_available :: bool
  info_capabilities :: "string list"
  info_capabilityValues :: "(string \<times> jsvalue) list"
  info_driver :: string
  info_app :: string

record ZoneInfo =
  zinfo_id :: string
  zinfo_name :: string

record FlowInfo =
  finfo_id :: string
  finfo_name :: string
  finfo_enabled :: bool
  finfo_folder :: "string option"
  finfo_triggerable :: bool

text \<open>The body of \<open>devices.forEach((device, index) => ...)\<close>, from \<open>index\<close> on.\<close>

fun formatDeviceEntries :: "nat \<Rightarrow> DeviceInfo list \<Rightarrow> string" where
  "formatDeviceEntries index [] = []"
| "formatDeviceEntries index (device # rest) =
     string_of_nat (index + 1) @ ''. '' @ or_default (Some (info_name device)) ''Unknown Device'' @ nl
     @ ''   ID: '' @ or_default (Some (info_id device)) ''N/A'' @ nl
     @ ''   Zone: '' @ or_default (Some (info_zone device)) ''N/A'' @ nl
     @ ''   Class: '' @ or_default (Some (info_class device)) ''N/A'' @ nl
     @ ''   Available: '' @ yes_no (info_available device) @ nl
     @ (if length (info_capabilities device) > 0
        then ''   Capabilities: '' @ join '', '' (info_capabilities device) @ nl else [])
     @ nl
     @ formatDeviceEntries (index + 1) rest"

definition formatDeviceList :: "DeviceInfo list \<Rightarrow> string" where
  "formatDeviceList devices =
     (if length devices = 0 then ''No devices found.''
      else ''Found '' @ string_of_nat (length devices) @ '' device(s):'' @ nl @ nl
           @ formatDeviceEntries 0 devices)"

fun formatZoneEntries :: "nat \<Rightarrow> ZoneInfo list \<Rightarrow> string" where
  "formatZoneEntries index [] = []"
| "formatZoneEntries index (zone # rest) =
     string_of_nat (index + 1) @ ''. '' @ or_default (Some (zinfo_name zone)) ''Unknown Zone'' @ nl
     @ ''   ID: '' @ or_default (Some (zinfo_id zone)) ''N/A'' @ nl @ nl
     @ formatZoneEntries (index + 1) rest"

definition formatZoneList :: "ZoneInfo list \<Rightarrow> string" where
  "formatZoneList zones =
     (if length zones = 0 then ''No zones found.''
      else ''Found '' @ string_of_nat (length zones) @ '' zone(s):'' @ nl @ nl
           @ formatZoneEntries 0 zones)"

fun formatFlowEntries :: "nat \<Rightarrow> FlowInfo list \<Rightarrow> string" where
  "formatFlowEntries index [] = []"
| "formatFlowEntries index (flow # rest) =
     string_of_nat (index + 1) @ ''. '' @ or_default (Some (finfo_name flow)) ''Unknown Flow'' @ nl
     @ ''   ID: '' @ or_default (Some (finfo_id flow)) ''N/A'' @ nl
     @ ''   Enabled: '' @ yes_no (finfo_enabled flow) @ nl @ nl
     @ formatFlowEntries (index + 1) rest"

definition formatFlowList :: "FlowInfo list \<Rightarrow> string" where
  "formatFlowList flows =
     (if length flows = 0 then ''No flows found.''
      else ''Found '' @ string_of_nat (length flows) @ '' flow(s):'' @ nl @ nl
           @ formatFlowEntries 0 flows)"

section \<open>The Capability Provider\<close>

text \<open>
  The platform client is external. Its data are typed as the handlers read them: a field
  the code guards with \<open>||\<close>, \<open>??\<close>, \<open>?.\<close> or a test may be absent. A device's
  \<open>zone\<close> is a zone id or an object carrying one. A collection keyed by id is the list of
  its entries in the order \<open>Object.entries\<close> yields them.
\<close>

datatype zone_ref = ZoneId string | ZoneObject "string option"

record device =
  dev_name :: "string option"
  dev_zone :: "zone_ref option"
  dev_class :: "string option"
  dev_available :: "bool option"
  dev_capabilities :: "string list option"
  dev_capabilitiesObj :: "(string \<times> jsvalue) list option"
  dev_driverId :: "string option"
  dev_manager_uri :: "string option"

record zone =
  zone_name :: "string option"

record flow_card =
  card_id :: "string option"
  card_uri :: "string option"

record flow =
  flow_name :: "string option"
  flow_enabled :: "bool option"
  flow_triggerable :: "bool option"
  flow_folder :: "string option"
  flow_trigger :: "flow_card option"
  flow_conditions :: "flow_card list option"
  flow_actions :: "flow_card list option"

text \<open>
  Each operation is asynchronous and may fail: its outcome is a value or the rejection.
  \<open>getDevice\<close> and \<open>getFlow\<close> may resolve to nothing, which the handlers test.
\<close>

record provider =
  getDevices :: "thrown + (string \<times> device) list"
  getDevice :: "string \<Rightarrow> thrown + device option"
  setCapabilityValue :: "string \<Rightarrow> string \<Rightarrow> jsvalue \<Rightarrow> thrown + unit"
  getCapabilityValue :: "string \<Rightarrow> string \<Rightarrow> thrown + jsvalue"
  getZones :: "thrown + (string \<times> zone) list"
  getFlows :: "thrown + (string \<times> flow) list"
  getFlow :: "string \<Rightarrow> thrown + flow option"

text \<open>The provider operations a handler invokes, in order, with their arguments.\<close>

datatype call =
    GetDevices
  | GetDevice string
  | SetCapabilityValue string string jsvalue
  | GetCapabilityValue string string
  | GetZones
  | GetFlows
  | GetFlow string

text \<open>
  A handler's outcome: the text it returns or the value it throws, and the provider
  operations it invoked on the way.
\<close>

type_synonym 'a io = "(thrown + 'a) \<times> call list"

definition io_return :: "'a \<Rightarrow> 'a io" where
  "io_return x = (Inr x, [])"

definition io_throw :: "thrown \<Rightarrow> 'a io" where
  "io_throw e = (Inl e, [])"

definition io_lift :: "thrown + 'a \<Rightarrow> 'a io" where
  "io_lift r = (r, [])"

definition io_call :: "call \<Rightarrow> thrown + 'a \<Rightarrow> 'a io" where
  "io_call c r = (r, [c])"

definition io_bind :: "'a io \<Rightarrow> ('a \<Rightarrow> 'b io) \<Rightarrow> 'b io" where
  "io_bind m f =
     (case m of
        (Inl e, t) \<Rightarrow> (Inl e, t)
      | (Inr x, t) \<Rightarrow> (case f x of (r, t') \<Rightarrow> (r, t @ t')))"

definition io_catch :: "'a io \<Rightarrow> (thrown \<Rightarrow> 'a io) \<Rightarrow> 'a io" where
  "io_catch m h =
     (case m of
        (Inl e, t) \<Rightarrow> (case h e of (r, t') \<Rightarrow> (r, t @ t'))
      | (Inr x, t) \<Rightarrow> (Inr x, t))"

section \<open>HomeyTools\<close>

text \<open>
  Each handler is the body of its \<open>try\<close> followed by its \<open>catch\<close>, which wraps the
  thrown value in an \<open>Error\<close> whose message starts with "Failed to". A call of
  \<open>Logger\<close> writes to the console and returns; what can throw is the template literal
  of its message, evaluated before the call, so a logging call whose message embeds an
  untyped argument is the conversion of that argument to text. Reading a property of a
  missing object and calling a missing method throw a \<open>TypeError\<close>, an \<open>Error\<close> with
  the engine's message.
\<close>

text \<open>
  Objects built by the handlers keep their own keys in creation order, with array-index
  keys first in ascending order, as \<open>Object.entries\<close> lists them. An assignment
  \<open>obj[k] = v\<close> to the key \<open>__proto__\<close> runs the inherited setter and creates no
  property.
\<close>

fun obj_set :: "(string \<times> 'v) list \<Rightarrow> string \<Rightarrow> 'v \<Rightarrow> (string \<times> 'v) list" where
  "obj_set [] k v = (if k = ''__proto__'' then [] else [(k, v)])"
| "obj_set ((k', v') # ps) k v =
     (if k = ''__proto__'' then (k', v') # ps
      else if k' = k then (k, v) # ps
      else (k', v') # obj_set ps k v)"

definition is_digit :: "char \<Rightarrow> bool" where
  "is_digit c = (CHR ''0'' \<le> c \<and> c \<le> CHR ''9'')"

definition nat_of_digits :: "string \<Rightarrow> nat" where
  "nat_of_digits s = foldl (\<lambda>n c. 10 * n + (of_char c - 48)) 0 s"

definition array_index :: "string \<Rightarrow> nat option" where
  "array_index k =
     (if k \<noteq> [] \<and> list_all is_digit k \<and> (k = ''0'' \<or> hd k \<noteq> CHR ''0'')
         \<and> nat_of_digits k < 4294967295
      then Some (nat_of_digits k) else None)"

definition Object_entries :: "(string \<times> 'v) list \<Rightarrow> (string \<times> 'v) list" where
  "Object_entries obj =
     sort_key (\<lambda>e. the (array_index (fst e))) (filter (\<lambda>e. array_index (fst e) \<noteq> None) obj)
     @ filter (\<lambda>e. array_index (fst e) = None) obj"

record HomeyTools =
  homeyApi :: "provider option"

text \<open>
  \<open>initialize\<close>: \<open>create\<close> is the outcome of \<open>HomeyAPI.createAppAPI\<close>. The handle is
  stored as soon as it is created, before the first \<open>getDevices\<close> is awaited.
\<close>

definition HomeyTools_initialize ::
    "(thrown + provider) \<Rightarrow> HomeyTools \<Rightarrow> (thrown + unit) \<times> HomeyTools \<times> call list" where
  "HomeyTools_initialize create this =
     (case create of
        Inl error \<Rightarrow> (Inl error, this, [])
      | Inr api \<Rightarrow>
          (case getDevices api of
             Inl error \<Rightarrow> (Inl error, this\<lparr>homeyApi := Some api\<rparr>, [GetDevices])
           | Inr devices \<Rightarrow> (Inr (), this\<lparr>homeyApi := Some api\<rparr>, [GetDevices])))"

definition ensureInitialized :: "HomeyTools \<Rightarrow> thrown + provider" where
  "ensureInitialized this =
     (case homeyApi this of
        None \<Rightarrow> Inl (Error ''HomeyAPI not initialized. Call initialize() first.'')
      | Some api \<Rightarrow> Inr api)"

definition formatErrorMessage :: "runtime \<Rightarrow> string \<Rightarrow> thrown \<Rightarrow> thrown + string" where
  "formatErrorMessage R context error =
     (case error_text R error of
        Inl e \<Rightarrow> Inl e
      | Inr message \<Rightarrow> Inr (''Failed to '' @ context @ '': '' @ message))"

text \<open>
  The \<open>catch\<close> of a handler: \<open>throw new Error(this.formatErrorMessage(context, error))\<close>.
\<close>

definition rethrow :: "runtime \<Rightarrow> string \<Rightarrow> thrown \<Rightarrow> 'a io" where
  "rethrow R context error =
     (case formatErrorMessage R context error of
        Inl e \<Rightarrow> io_throw e
      | Inr message \<Rightarrow> io_throw (Error message))"

text \<open>
  The \<open>name\<close> of the function a plain object inherits under a key; \<open>__proto__\<close>
  yields the prototype itself, which has no name.
\<close>

definition inherited_name :: "string \<Rightarrow> string option" where
  "inherited_name k =
     (if k = ''constructor'' then Some ''Object''
      else if k \<in> set [''toString'', ''toLocaleString'', ''valueOf'', ''hasOwnProperty'',
                        ''isPrototypeOf'', ''propertyIsEnumerable'', ''__defineGetter__'',
                        ''__defineSetter__'', ''__lookupGetter__'', ''__lookupSetter__'']
        then Some k
      else None)"

text \<open>
  \<open>allZones[zoneId]\<close> is the zone of that id or, the collection being a plain object,
  what it inherits under that key.
\<close>

definition getZoneName :: "zone_ref option \<Rightarrow> (string \<times> zone) list \<Rightarrow> string" where
  "getZoneName deviceZone allZones =
     (case deviceZone of
        None \<Rightarrow> ''Unknown''
      | Some ref \<Rightarrow>
          if ref = ZoneId [] then ''Unknown''
          else (case (case ref of ZoneId s \<Rightarrow> Some s | ZoneObject i \<Rightarrow> i) of
                  None \<Rightarrow> ''Unknown''
                | Some zoneId \<Rightarrow>
                    if zoneId \<noteq> []
                    then (case map_of allZones zoneId of
                            Some z \<Rightarrow> or_default (zone_name z) ''Unknown''
                          | None \<Rightarrow> or_default (inherited_name zoneId) ''Unknown'')
                    else ''Unknown''))"

definition extractCapabilityValues ::
    "(string \<times> jsvalue) list option \<Rightarrow> (string \<times> jsvalue) list" where
  "extractCapabilityValues capabilitiesObj =
     (case capabilitiesObj of
        None \<Rightarrow> []
      | Some entries \<Rightarrow>
          fold (\<lambda>(capability, capabilityInfo) capabilityValues.
                  case capabilityInfo of
                    Obj ps \<Rightarrow>
                      (case map_of ps ''value'' of
                         Some v \<Rightarrow> obj_set capabilityValues capability v
                       | None \<Rightarrow> capabilityValues)
                  | _ \<Rightarrow> capabilityValues)
               entries [])"

definition nth_opt :: "'a list \<Rightarrow> nat \<Rightarrow> 'a option" where
  "nth_opt xs i = (if i < length xs then Some (xs ! i) else None)"

definition deviceInfo_of :: "string \<Rightarrow> device \<Rightarrow> string \<Rightarrow> DeviceInfo" where
  "deviceInfo_of deviceId deviceData zoneName =
     \<lparr> info_id = deviceId,
       info_name = or_default (dev_name deviceData) ''Unknown Device'',
       info_zone = zoneName,
       info_class = or_default (dev_class deviceData) ''unknown'',
       info_available = (case dev_available deviceData of None \<Rightarrow> True | Some a \<Rightarrow> a),
       info_capabilities = (case dev_capabilities deviceData of None \<Rightarrow> [] | Some cs \<Rightarrow> cs),
       info_capabilityValues = extractCapabilityValues (dev_capabilitiesObj deviceData),
       info_driver = or_default (dev_driverId deviceData) ''unknown'',
       info_app =
         or_default
           (case dev_driverId deviceData of
              None \<Rightarrow> None
            | Some d \<Rightarrow> nth_opt (split_on CHR '':'' d) 1)
           ''unknown'' \<rparr>"

text \<open>
  The loop of \<open>listDevices\<close> over the device entries. The filter is the raw \<open>zone\<close>
  argument: a falsy one filters nothing, a text is compared in lower case, and any other
  truthy value has no \<open>toLowerCase\<close>, so the comparison throws a TypeError.
\<close>

fun collectDevices ::
    "runtime \<Rightarrow> jsvalue \<Rightarrow> (string \<times> zone) list \<Rightarrow> (string \<times> device) list
     \<Rightarrow> DeviceInfo list \<Rightarrow> thrown + DeviceInfo list" where
  "collectDevices R zone allZones [] deviceList = Inr deviceList"
| "collectDevices R zone allZones ((deviceId, deviceData) # rest) deviceList =
     (let zoneName = getZoneName (dev_zone deviceData) allZones in
      if truthy zone
      then (case zone of
              Str z \<Rightarrow>
                if toLowerCase R zoneName \<noteq> toLowerCase R z
                then collectDevices R zone allZones rest deviceList
                else collectDevices R zone allZones rest
                       (deviceList @ [deviceInfo_of deviceId deviceData zoneName])
            | _ \<Rightarrow> Inl (Error ''zone.toLowerCase is not a function''))
      else collectDevices R zone allZones rest
             (deviceList @ [deviceInfo_of deviceId deviceData zoneName]))"

text \<open>
  \<open>Promise.all\<close> starts both reads before either is awaited; of two rejections the one
  of \<open>getDevices\<close> is taken as the first.
\<close>

definition fetchDevicesAndZones ::
    "provider \<Rightarrow> ((string \<times> device) list \<times> (string \<times> zone) list) io" where
  "fetchDevicesAndZones api =
     (case getDevices api of
        Inl error \<Rightarrow> (Inl error, [GetDevices, GetZones])
      | Inr allDevices \<Rightarrow>
          (case getZones api of
             Inl error \<Rightarrow> (Inl error, [GetDevices, GetZones])
           | Inr allZones \<Rightarrow> (Inr (allDevices, allZones), [GetDevices, GetZones])))"

definition listDevices :: "runtime \<Rightarrow> HomeyTools \<Rightarrow> jsvalue \<Rightarrow> string io" where
  "listDevices R this zone =
     io_catch
       (io_bind (io_lift (ensureInitialized this)) (\<lambda>api.
        io_bind (fetchDevicesAndZones api) (\<lambda>(allDevices, allZones).
        io_bind (io_lift (collectDevices R zone allZones allDevices [])) (\<lambda>deviceList.
        io_return (formatDeviceList deviceList)))))
       (rethrow R ''list devices'')"

text \<open>
  \<open>controlDevice\<close> logs \<open>`Controlling device ${deviceId}: ${capability} = ${value}`\<close>
  after the two validations and before \<open>ensureInitialized\<close>: the untyped \<open>value\<close> is
  converted to text there, and again in the text returned.
\<close>

definition controlDevice ::
    "runtime \<Rightarrow> HomeyTools \<Rightarrow> jsvalue \<Rightarrow> jsvalue \<Rightarrow> jsvalue \<Rightarrow> string io" where
  "controlDevice R this deviceId capability v =
     io_catch
       (io_bind (io_lift (validateDeviceId deviceId)) (\<lambda>did.
        io_bind (io_lift (validateCapability capability)) (\<lambda>cap.
        io_bind (io_lift (toStr R v)) (\<lambda>logged.
        io_bind (io_lift (ensureInitialized this)) (\<lambda>api.
        io_bind (io_call (SetCapabilityValue did cap v) (setCapabilityValue api did cap v)) (\<lambda>u.
        io_bind (io_call (GetDevice did) (getDevice api did)) (\<lambda>device.
          case device of
            None \<Rightarrow>
              io_throw (Error (''Cannot read properties of undefined (reading '' @ [CHR 0x27]
                               @ ''name'' @ [CHR 0x27] @ '')''))
          | Some d \<Rightarrow>
              io_bind (io_lift (toStr R v)) (\<lambda>valueText.
              io_return (''Successfully set '' @ cap @ '' to '' @ valueText
                         @ '' for device '' @ [CHR 0x22] @ or_default (dev_name d) did
                         @ [CHR 0x22] @ '' ('' @ did @ '')'')))))))))
       (rethrow R ''control device'')"

text \<open>
  The loop of \<open>getDeviceInfo\<close> over the declared capabilities: a read that fails stores
  the placeholder text and the loop goes on.
\<close>

fun readCapabilities ::
    "provider \<Rightarrow> string \<Rightarrow> string list \<Rightarrow> (string \<times> jsvalue) list
     \<Rightarrow> (string \<times> jsvalue) list \<times> call list" where
  "readCapabilities api deviceId [] capabilityValues = (capabilityValues, [])"
| "readCapabilities api deviceId (capability # rest) capabilityValues =
     (case readCapabilities api deviceId rest
             (obj_set capabilityValues capability
                (case getCapabilityValue api deviceId capability of
                   Inr v \<Rightarrow> v
                 | Inl error \<Rightarrow> Str ''Error reading value''))
      of (result, t) \<Rightarrow> (result, GetCapabilityValue deviceId capability # t))"

definition zoneText :: "zone_ref option \<Rightarrow> string" where
  "zoneText z =
     (case z of
        None \<Rightarrow> ''Unknown''
      | Some (ZoneId s) \<Rightarrow> if s = [] then ''Unknown'' else s
      | Some (ZoneObject i) \<Rightarrow> ''[object Object]'')"

definition capabilityLine :: "runtime \<Rightarrow> string \<times> jsvalue \<Rightarrow> string" where
  "capabilityLine R e = ''  '' @ fst e @ '': '' @ stringified R (snd e)"

definition deviceHeaderLines :: "string \<Rightarrow> device \<Rightarrow> string list" where
  "deviceHeaderLines deviceId device =
     [ ''Device Information for: '' @ or_default (dev_name device) ''Unknown Device'',
       ''ID: '' @ deviceId,
       ''Zone: '' @ zoneText (dev_zone device),
       ''Class: '' @ or_default (dev_class device) ''unknown'',
       ''Available: '' @ (case dev_available device of
                            None \<Rightarrow> ''Unknown''
                          | Some a \<Rightarrow> yes_no a),
       ''Driver: '' @ or_default (dev_driverId device) ''unknown'',
       ''App: '' @ or_default
                    (case dev_manager_uri device of
                       None \<Rightarrow> None
                     | Some uri \<Rightarrow> nth_opt (split_on CHR '':'' uri) 0)
                    ''unknown'',
       [],
       ''Capabilities:'' ]"

definition getDeviceInfo :: "runtime \<Rightarrow> HomeyTools \<Rightarrow> jsvalue \<Rightarrow> string io" where
  "getDeviceInfo R this deviceId =
     io_catch
       (io_bind (io_lift (validateDeviceId deviceId)) (\<lambda>did.
        io_bind (io_lift (ensureInitialized this)) (\<lambda>api.
        io_bind (io_call (GetDevice did) (getDevice api did)) (\<lambda>device.
          case device of
            None \<Rightarrow> io_throw (Error (''Device not found: '' @ did))
          | Some d \<Rightarrow>
              (case readCapabilities api did
                      (case dev_capabilities d of None \<Rightarrow> [] | Some cs \<Rightarrow> cs) []
               of (capabilityValues, t) \<Rightarrow>
                 (Inr (join nl (deviceHeaderLines did d
                                @ map (capabilityLine R) (Object_entries capabilityValues))),
                  t))))))
       (rethrow R ''get device info'')"

definition zoneInfo_of :: "string \<times> zone \<Rightarrow> ZoneInfo" where
  "zoneInfo_of e = \<lparr> zinfo_id = fst e, zinfo_name = or_default (zone_name (snd e)) (fst e) \<rparr>"

text \<open>
  \<open>Array.prototype.sort\<close> with a comparator: a stable sort, here by insertion. An
  element goes before the first one it does not compare greater than.
\<close>

fun insert_by :: "('a \<Rightarrow> 'a \<Rightarrow> int) \<Rightarrow> 'a \<Rightarrow> 'a list \<Rightarrow> 'a list" where
  "insert_by cmp x [] = [x]"
| "insert_by cmp x (y # ys) =
     (if cmp x y \<le> 0 then x # y # ys else y # insert_by cmp x ys)"

fun sort_by :: "('a \<Rightarrow> 'a \<Rightarrow> int) \<Rightarrow> 'a list \<Rightarrow> 'a list" where
  "sort_by cmp [] = []"
| "sort_by cmp (x # xs) = insert_by cmp x (sort_by cmp xs)"

definition listZones :: "runtime \<Rightarrow> HomeyTools \<Rightarrow> string io" where
  "listZones R this =
     io_catch
       (io_bind (io_lift (ensureInitialized this)) (\<lambda>api.
        io_bind (io_call GetZones (getZones api)) (\<lambda>zones.
        io_return
          (formatZoneList
             (sort_by (\<lambda>a b. localeCompare R (zinfo_name a) (zinfo_name b))
                (map zoneInfo_of zones))))))
       (rethrow R ''list zones'')"

definition flowInfo_of :: "string \<times> flow \<Rightarrow> FlowInfo" where
  "flowInfo_of e =
     \<lparr> finfo_id = fst e,
       finfo_name = or_default (flow_name (snd e)) ''Unknown Flow'',
       finfo_enabled = (case flow_enabled (snd e) of None \<Rightarrow> False | Some b \<Rightarrow> b),
       finfo_folder = (case flow_folder (snd e) of
                         None \<Rightarrow> None
                       | Some f \<Rightarrow> if f = [] then None else Some f),
       finfo_triggerable = (case flow_triggerable (snd e) of None \<Rightarrow> False | Some b \<Rightarrow> b) \<rparr>"

text \<open>
  \<open>enabledOnly\<close> is the raw argument; an absent one defaults to \<open>false\<close>. The handler
  logs \<open>`Listing flows (enabled only: ${enabledOnly})...`\<close> before
  \<open>ensureInitialized\<close>, which converts the argument to text.
\<close>

definition listFlows :: "runtime \<Rightarrow> HomeyTools \<Rightarrow> jsvalue \<Rightarrow> string io" where
  "listFlows R this enabled_only =
     (let enabledOnly = (if enabled_only = Undefined then Bool False else enabled_only) in
      io_catch
        (io_bind (io_lift (toStr R enabledOnly)) (\<lambda>logged.
         io_bind (io_lift (ensureInitialized this)) (\<lambda>api.
         io_bind (io_call GetFlows (getFlows api)) (\<lambda>allFlows.
         io_return
           (formatFlowList
              (filter (\<lambda>flow. \<not> truthy enabledOnly \<or> finfo_enabled flow)
                 (map flowInfo_of allFlows)))))))
        (rethrow R ''list flows''))"

text \<open>The warning sign that opens the notice of \<open>triggerFlow\<close>, in UTF-8.\<close>

definition warning_sign :: string where
  "warning_sign = [CHR 0xE2, CHR 0x9A, CHR 0xA0, CHR 0xEF, CHR 0xB8, CHR 0x8F]"

definition flag_text :: "bool option \<Rightarrow> string" where
  "flag_text b = (case b of None \<Rightarrow> ''No'' | Some x \<Rightarrow> yes_no x)"

definition triggerFlow :: "runtime \<Rightarrow> HomeyTools \<Rightarrow> jsvalue \<Rightarrow> string io" where
  "triggerFlow R this flowId =
     io_catch
       (io_bind (io_lift (validateFlowId flowId)) (\<lambda>fid.
        io_bind (io_lift (ensureInitialized this)) (\<lambda>api.
        io_bind (io_call (GetFlow fid) (getFlow api fid)) (\<lambda>flow.
          case flow of
            None \<Rightarrow> io_throw (Error (''Flow not found: '' @ fid))
          | Some flowData \<Rightarrow>
              io_return
                (warning_sign
                 @ '' Flow triggering is currently not operational due to Homey API limitations.''
                 @ nl @ nl @ ''Flow Details:'' @ nl
                 @ ''- Name: '' @ or_default (flow_name flowData) fid @ nl
                 @ ''- ID: '' @ fid @ nl
                 @ ''- Enabled: '' @ flag_text (flow_enabled flowData) @ nl
                 @ ''- Triggerable: '' @ flag_text (flow_triggerable flowData) @ nl @ nl
                 @ ''Please use the Homey app or web interface to manually trigger this flow.'')))))
       (rethrow R ''get flow information'')"

fun cardLines :: "string \<Rightarrow> nat \<Rightarrow> flow_card list \<Rightarrow> string list" where
  "cardLines d index [] = []"
| "cardLines d index (c # rest) =
     (''  '' @ string_of_nat (index + 1) @ ''. '' @ or_default (card_id c) d)
     # cardLines d (index + 1) rest"

definition flowInfoLines :: "string \<Rightarrow> flow \<Rightarrow> string list" where
  "flowInfoLines flowId flowData =
     [ ''Flow Information for: '' @ or_default (flow_name flowData) ''Unknown Flow'',
       ''ID: '' @ flowId,
       ''Enabled: '' @ flag_text (flow_enabled flowData),
       ''Triggerable: '' @ flag_text (flow_triggerable flowData),
       ''Folder: '' @ or_default (flow_folder flowData) ''None'' ]
     @ (case flow_trigger flowData of
          None \<Rightarrow> []
        | Some trigger \<Rightarrow>
            [ [], ''Trigger:'', ''  ID: '' @ or_default (card_id trigger) ''N/A'' ]
            @ (if or_default (card_uri trigger) [] \<noteq> []
               then [''  URI: '' @ or_default (card_uri trigger) []] else []))
     @ (case flow_conditions flowData of
          None \<Rightarrow> []
        | Some conditions \<Rightarrow>
            if length conditions > 0
            then [ [], ''Conditions ('' @ string_of_nat (length conditions) @ ''):'' ]
                 @ cardLines ''Unknown'' 0 conditions
            else [])
     @ (case flow_actions flowData of
          None \<Rightarrow> []
        | Some actions \<Rightarrow>
            if length actions > 0
            then [ [], ''Actions ('' @ string_of_nat (length actions) @ ''):'' ]
                 @ cardLines ''Unknown'' 0 actions
            else [])"

definition getFlowInfo :: "runtime \<Rightarrow> HomeyTools \<Rightarrow> jsvalue \<Rightarrow> string io" where
  "getFlowInfo R this flowId =
     io_catch
       (io_bind (io_lift (validateFlowId flowId)) (\<lambda>fid.
        io_bind (io_lift (ensureInitialized this)) (\<lambda>api.
        io_bind (io_call (GetFlow fid) (getFlow api fid)) (\<lambda>flow.
          case flow of
            None \<Rightarrow> io_throw (Error (''Flow not found: '' @ fid))
          | Some flowData \<Rightarrow> io_return (join nl (flowInfoLines fid flowData))))))
       (rethrow R ''get flow info'')"

section \<open>HomeyMCPServer\<close>

text \<open>
  A request is the JSON value the endpoint received: its \<open>id\<close>, \<open>method\<close> and
  \<open>params\<close> are read as properties and any of them may be absent or of any shape.
\<close>

text \<open>A tool definition: its properties are (name, declared type, description).\<close>

record Tool =
  tool_name :: string
  tool_description :: string
  tool_properties :: "(string \<times> string option \<times> string) list"
  tool_required :: "string list option"

datatype result =
    InitializeResult string string string
  | ToolsListResult "Tool list"
  | ToolCallResult string

text \<open>
  A response carries either a result or an error (code, message and optional data),
  and the id it answers.
\<close>

datatype response =
    Success jsvalue result
  | Failure jsvalue int string "string option"

fun response_id :: "response \<Rightarrow> jsvalue" where
  "response_id (Success i r) = i"
| "response_id (Failure i c m d) = i"

record HomeyMCPServer =
  homeyTools :: HomeyTools

text \<open>
  \<open>HomeyMCPServer.initialize\<close>: the static \<open>instance\<close> is an argument and a result.
  It returns the instance handed to the caller, the published instance, and the provider
  operations invoked. The published object is the one \<open>homeyTools.initialize\<close> mutates;
  what that initialisation throws is logged and dropped.
\<close>

definition HomeyMCPServer_initialize ::
    "(thrown + provider) \<Rightarrow> HomeyMCPServer option
     \<Rightarrow> HomeyMCPServer \<times> HomeyMCPServer option \<times> call list" where
  "HomeyMCPServer_initialize create instance =
     (case instance of
        Some existing \<Rightarrow> (existing, Some existing, [])
      | None \<Rightarrow>
          (case HomeyTools_initialize create \<lparr> homeyApi = None \<rparr> of
             (outcome, tools, t) \<Rightarrow>
               (\<lparr> homeyTools = tools \<rparr>, Some \<lparr> homeyTools = tools \<rparr>, t)))"

definition success :: "jsvalue \<Rightarrow> result \<Rightarrow> response" where
  "success i r = Success i r"

text \<open>
  \<open>error(id, code, message, error?)\<close>: data is present when \<open>error\<close> is truthy, and
  is its message or, for a value that is no \<open>Error\<close>, its conversion to text.
\<close>

definition error ::
    "runtime \<Rightarrow> jsvalue \<Rightarrow> int \<Rightarrow> string \<Rightarrow> thrown option \<Rightarrow> thrown + response" where
  "error R i code message err =
     (case err of
        None \<Rightarrow> Inr (Failure i code message None)
      | Some (Error m) \<Rightarrow> Inr (Failure i code message (Some m))
      | Some (Raised v) \<Rightarrow>
          if truthy v
          then (case toStr R v of
                  Inl e \<Rightarrow> Inl e
                | Inr d \<Rightarrow> Inr (Failure i code message (Some d)))
          else Inr (Failure i code message None))"

definition handleInitialize :: "jsvalue \<Rightarrow> response" where
  "handleInitialize request =
     success (get_prop request ''id'')
       (InitializeResult ''2024-11-05'' ''homey-mcp-server'' ''1.0.0'')"

definition getToolDefinitions :: "Tool list" where
  "getToolDefinitions =
     [ \<lparr> tool_name = ''list_devices'',
         tool_description = ''List all Homey devices with their current state'',
         tool_properties = [(''zone'', Some ''string'', ''Filter by zone name (optional)'')],
         tool_required = None \<rparr>,
       \<lparr> tool_name = ''control_device'',
         tool_description = ''Control a Homey device capability'',
         tool_properties =
           [(''device_id'', Some ''string'', ''Homey device ID''),
            (''capability'', Some ''string'',
               ''Capability (e.g., '' @ [CHR 0x27] @ ''onoff'' @ [CHR 0x27] @ '', ''
               @ [CHR 0x27] @ ''dim'' @ [CHR 0x27] @ '')''),
            (''value'', None, ''Value to set'')],
         tool_required = Some [''device_id'', ''capability'', ''value''] \<rparr>,
       \<lparr> tool_name = ''get_device_info'',
         tool_description = ''Get detailed information about a specific device'',
         tool_properties = [(''device_id'', Some ''string'', ''Homey device ID'')],
         tool_required = Some [''device_id''] \<rparr>,
       \<lparr> tool_name = ''list_zones'',
         tool_description = ''List all Homey zones'',
         tool_properties = [],
         tool_required = None \<rparr>,
       \<lparr> tool_name = ''list_flows'',
         tool_description = ''List automation flows'',
         tool_properties =
           [(''enabled_only'', Some ''boolean'', ''Only show enabled flows (default: false)'')],
         tool_required = None \<rparr>,
       \<lparr> tool_name = ''trigger_flow'',
         tool_description = ''Trigger an automation flow'',
         tool_properties = [(''flow_id'', Some ''string'', ''Flow ID to trigger'')],
         tool_required = Some [''flow_id''] \<rparr>,
       \<lparr> tool_name = ''get_flow_info'',
         tool_description = ''Get detailed information about a flow'',
         tool_properties = [(''flow_id'', Some ''string'', ''Flow ID'')],
         tool_required = Some [''flow_id''] \<rparr> ]"

definition handleToolsList :: "jsvalue \<Rightarrow> response" where
  "handleToolsList request =
     success (get_prop request ''id'') (ToolsListResult getToolDefinitions)"

text \<open>
  \<open>switch (name)\<close> compares with \<open>===\<close>: only a text equal to a case label matches.
  The default case builds its message from \<open>`Unknown tool: ${name}`\<close>.
\<close>

definition executeTool :: "runtime \<Rightarrow> HomeyMCPServer \<Rightarrow> jsvalue \<Rightarrow> jsvalue \<Rightarrow> string io" where
  "executeTool R this name args =
     (if name = Str ''list_devices'' then
        listDevices R (homeyTools this) (get_prop args ''zone'')
      else if name = Str ''control_device'' then
        controlDevice R (homeyTools this)
          (get_prop args ''device_id'') (get_prop args ''capability'') (get_prop args ''value'')
      else if name = Str ''get_device_info'' then
        getDeviceInfo R (homeyTools this) (get_prop args ''device_id'')
      else if name = Str ''list_zones'' then
        listZones R (homeyTools this)
      else if name = Str ''list_flows'' then
        listFlows R (homeyTools this) (get_prop args ''enabled_only'')
      else if name = Str ''trigger_flow'' then
        triggerFlow R (homeyTools this) (get_prop args ''flow_id'')
      else if name = Str ''get_flow_info'' then
        getFlowInfo R (homeyTools this) (get_prop args ''flow_id'')
      else (case toStr R name of
              Inl e \<Rightarrow> io_throw e
            | Inr n \<Rightarrow> io_throw (Error (''Unknown tool: '' @ n))))"

text \<open>
  \<open>handleToolCall\<close>: the response it resolves to or the value it rejects with, and the
  provider operations invoked. Its \<open>catch\<close> first logs
  \<open>`Tool execution failed: ${name}`\<close> and then builds \<open>`Tool failed: ${name}`\<close>; what
  either conversion throws leaves the function.
\<close>

definition handleToolCall ::
    "runtime \<Rightarrow> HomeyMCPServer \<Rightarrow> jsvalue \<Rightarrow> (thrown + response) \<times> call list" where
  "handleToolCall R this request =
     (let params = (if truthy (get_prop request ''params'') then get_prop request ''params''
                    else Obj []);
          name = get_prop params ''name'';
          args = get_prop params ''arguments'';
          toolArgs = (if truthy args then args else Obj [])
      in case executeTool R this name toolArgs of
           (Inr content, t) \<Rightarrow>
             (Inr (success (get_prop request ''id'') (ToolCallResult content)), t)
         | (Inl err, t) \<Rightarrow>
             (case toStr R name of
                Inl e \<Rightarrow> (Inl e, t)
              | Inr n \<Rightarrow>
                  (error R (get_prop request ''id'') (- 32603) (''Tool failed: '' @ n) (Some err),
                   t)))"

text \<open>
  The \<open>switch\<close> inside the \<open>try\<close> of \<open>handleMCPRequest\<close>. It throws (\<open>Inl\<close>), or it
  returns a response or the promise of \<open>handleToolCall\<close>, which is not awaited there:
  the outcome of that promise, a rejection too, is the outcome of the request.
\<close>

definition dispatch ::
    "runtime \<Rightarrow> HomeyMCPServer \<Rightarrow> jsvalue \<Rightarrow> (thrown + (thrown + response)) \<times> call list" where
  "dispatch R this request =
     (if get_prop request ''method'' = Str ''initialize'' then
        (Inr (Inr (handleInitialize request)), [])
      else if get_prop request ''method'' = Str ''tools/list'' then
        (Inr (Inr (handleToolsList request)), [])
      else if get_prop request ''method'' = Str ''tools/call'' then
        (case handleToolCall R this request of (outcome, t) \<Rightarrow> (Inr outcome, t))
      else (case toStr R (get_prop request ''method'') of
              Inl e \<Rightarrow> (Inl e, [])
            | Inr m \<Rightarrow>
                (case error R (get_prop request ''id'') (- 32601) (''Method not found: '' @ m) None
                 of Inl e \<Rightarrow> (Inl e, [])
                  | Inr r \<Rightarrow> (Inr (Inr r), []))))"

text \<open>
  \<open>handleMCPRequest\<close>: the response, or the value the returned promise rejects with.
  Before its \<open>try\<close> it logs \<open>`MCP: ${request.method}`\<close>: reading the method of
  \<open>null\<close> or \<open>undefined\<close> throws, and so does a method that has no text. The
  \<open>catch\<close> answers what the \<open>switch\<close> throws with an internal error.
\<close>

definition handleMCPRequest ::
    "runtime \<Rightarrow> HomeyMCPServer \<Rightarrow> jsvalue \<Rightarrow> (thrown + response) \<times> call list" where
  "handleMCPRequest R this request =
     (if request = Null then
        (Inl (Error (''Cannot read properties of null (reading '' @ [CHR 0x27] @ ''method''
                     @ [CHR 0x27] @ '')'')), [])
      else if request = Undefined then
        (Inl (Error (''Cannot read properties of undefined (reading '' @ [CHR 0x27] @ ''method''
                     @ [CHR 0x27] @ '')'')), [])
      else (case toStr R (get_prop request ''method'') of
              Inl e \<Rightarrow> (Inl e, [])
            | Inr logged \<Rightarrow>
                (case dispatch R this request of
                   (Inr outcome, t) \<Rightarrow> (outcome, t)
                 | (Inl err, t) \<Rightarrow>
                     (error R (get_prop request ''id'') (- 32603) ''Internal error'' (Some err),
                      t))))"

section \<open>The endpoint\<close>

text \<open>
  \<open>exports.mcp\<close>: \<open>instance\<close> is what \<open>HomeyMCPServer.getInstance()\<close> returns. What
  is thrown on the way, a rejection of \<open>handleMCPRequest\<close> included, is answered with an
  internal error whose id is \<open>body?.id || null\<close>.
\<close>

definition mcp ::
    "runtime \<Rightarrow> HomeyMCPServer option \<Rightarrow> jsvalue \<Rightarrow> (thrown + response) \<times> call list" where
  "mcp R instance body =
     (case (case instance of
              None \<Rightarrow> (Inl (Error ''MCP Server not initialized''), [])
            | Some mcpServer \<Rightarrow> handleMCPRequest R mcpServer body)
      of (Inr response, t) \<Rightarrow> (Inr response, t)
       | (Inl err, t) \<Rightarrow>
           (case error_text R err of
              Inl e \<Rightarrow> (Inl e, t)
            | Inr d \<Rightarrow>
                (Inr (Failure (if truthy (get_prop body ''id'') then get_prop body ''id'' else Null)
                        (- 32603) ''Internal error'' (Some d)),
                 t)))"

section \<open>Specification vocabulary and example data\<close>

subsection \<open>Numeric texts\<close>

text \<open>
  A text "parses fully as a number" when, stripped of the white space around it, it is a
  numeric literal of ECMAScript's StringToNumber: an optionally signed decimal literal
  (\<open>Infinity\<close>, or digits with an optional fraction and an optional exponent), or an
  unsigned binary, octal or hexadecimal integer literal. \<open>Number\<close> reads every other
  non-blank text as NaN, and a blank text as zero.
\<close>

definition digits_of :: "string \<Rightarrow> string \<Rightarrow> bool" where
  "digits_of alphabet s = (s \<noteq> [] \<and> list_all (\<lambda>c. c \<in> set alphabet) s)"

definition exponent_part :: "string \<Rightarrow> bool" where
  "exponent_part s =
     (case s of
        [] \<Rightarrow> True
      | e # r \<Rightarrow>
          (e = CHR ''e'' \<or> e = CHR ''E'')
          \<and> (case r of
               [] \<Rightarrow> False
             | x # r' \<Rightarrow>
                 if x = CHR ''+'' \<or> x = CHR ''-'' then digits_of ''0123456789'' r'
                 else digits_of ''0123456789'' r))"

definition unsigned_decimal_literal :: "string \<Rightarrow> bool" where
  "unsigned_decimal_literal s =
     (s = ''Infinity''
      \<or> (case dropWhile is_digit s of
            [] \<Rightarrow> takeWhile is_digit s \<noteq> []
          | c # q \<Rightarrow>
              if c = CHR ''.''
              then (takeWhile is_digit s \<noteq> [] \<or> takeWhile is_digit q \<noteq> [])
                   \<and> exponent_part (dropWhile is_digit q)
              else takeWhile is_digit s \<noteq> [] \<and> exponent_part (c # q)))"

definition decimal_literal :: "string \<Rightarrow> bool" where
  "decimal_literal s =
     (case s of
        [] \<Rightarrow> False
      | c # r \<Rightarrow>
          if c = CHR ''+'' \<or> c = CHR ''-'' then unsigned_decimal_literal r
          else unsigned_decimal_literal s)"

definition non_decimal_literal :: "string \<Rightarrow> bool" where
  "non_decimal_literal s =
     (case s of
        z # b # r \<Rightarrow>
          z = CHR ''0''
          \<and> ((b = CHR ''x'' \<or> b = CHR ''X'') \<and> digits_of ''0123456789abcdefABCDEF'' r
             \<or> (b = CHR ''o'' \<or> b = CHR ''O'') \<and> digits_of ''01234567'' r
             \<or> (b = CHR ''b'' \<or> b = CHR ''B'') \<and> digits_of ''01'' r)
      | _ \<Rightarrow> False)"

definition is_numeric_literal :: "string \<Rightarrow> bool" where
  "is_numeric_literal s = (decimal_literal s \<or> non_decimal_literal s)"

definition parses_as_number :: "string \<Rightarrow> bool" where
  "parses_as_number s = (trim s \<noteq> [] \<and> is_numeric_literal (trim s))"

text \<open>
  What is assumed of the runtime's \<open>Number\<close>: the texts it reads as NaN, and that
  it ignores the white space around a text.
\<close>

definition Number_reads_literals :: "runtime \<Rightarrow> bool" where
  "Number_reads_literals R =
     (\<forall>s. (Number_of R s = NaN) = (trim s \<noteq> [] \<and> \<not> is_numeric_literal (trim s))
          \<and> Number_of R (trim s) = Number_of R s)"

subsection \<open>Requests and zone filters\<close>

text \<open>The request \<open>tools/call\<close> of a named tool with its arguments.\<close>

definition toolCall :: "jsvalue \<Rightarrow> jsvalue \<Rightarrow> (string \<times> jsvalue) list \<Rightarrow> jsvalue" where
  "toolCall i name args =
     Obj [(''jsonrpc'', Str ''2.0''), (''id'', i), (''method'', Str ''tools/call''),
          (''params'', Obj [(''name'', name), (''arguments'', Obj args)])]"

text \<open>
  The tool name and the arguments \<open>handleToolCall\<close> reads from a request:
  \<open>const { name, arguments: args } = request.params || {}\<close> and \<open>args || {}\<close>.
\<close>

definition requested_tool :: "jsvalue \<Rightarrow> jsvalue" where
  "requested_tool request =
     get_prop (if truthy (get_prop request ''params'') then get_prop request ''params''
               else Obj []) ''name''"

definition requested_arguments :: "jsvalue \<Rightarrow> jsvalue" where
  "requested_arguments request =
     (if truthy (get_prop (if truthy (get_prop request ''params'') then get_prop request ''params''
                           else Obj []) ''arguments'')
      then get_prop (if truthy (get_prop request ''params'') then get_prop request ''params''
                     else Obj []) ''arguments''
      else Obj [])"

text \<open>
  A device entry matches a filter when its resolved zone name and the filter have the
  same lower-case form, and it is listed as the \<open>DeviceInfo\<close> the loop builds for it.
\<close>

definition zone_matches ::
    "runtime \<Rightarrow> (string \<times> zone) list \<Rightarrow> string \<Rightarrow> string \<times> device \<Rightarrow> bool" where
  "zone_matches R allZones z e =
     (toLowerCase R (getZoneName (dev_zone (snd e)) allZones) = toLowerCase R z)"

definition listed :: "(string \<times> zone) list \<Rightarrow> string \<times> device \<Rightarrow> DeviceInfo" where
  "listed allZones e =
     deviceInfo_of (fst e) (snd e) (getZoneName (dev_zone (snd e)) allZones)"

subsection \<open>An example runtime\<close>

text \<open>
  The example runtime reads a numeric literal as its exact value, renders an integer in
  decimal, folds the letters A to Z and compares texts by their folded forms.
\<close>

definition ascii_lower :: "string \<Rightarrow> string" where
  "ascii_lower s =
     map (\<lambda>c. case map_of (zip ''ABCDEFGHIJKLMNOPQRSTUVWXYZ'' ''abcdefghijklmnopqrstuvwxyz'') c of
                Some l \<Rightarrow> l
              | None \<Rightarrow> c) s"

definition digit_value :: "char \<Rightarrow> nat" where
  "digit_value c =
     (case map_of (zip ''0123456789abcdefABCDEF''
                     [0, 1, 2, 3, 4, 5, 6, 7, 8, 9, 10, 11, 12, 13, 14, 15, 10, 11, 12, 13, 14, 15])
             c of
        Some d \<Rightarrow> d
      | None \<Rightarrow> 0)"

definition digits_value :: "nat \<Rightarrow> string \<Rightarrow> nat" where
  "digits_value b s = foldl (\<lambda>n c. b * n + digit_value c) 0 s"

definition exponent_value :: "string \<Rightarrow> int" where
  "exponent_value s =
     (case s of
        e # x # r \<Rightarrow>
          if x = CHR ''-'' then - int (digits_value 10 r)
          else if x = CHR ''+'' then int (digits_value 10 r)
          else int (digits_value 10 (x # r))
      | _ \<Rightarrow> 0)"

definition scaled :: "rat \<Rightarrow> int \<Rightarrow> rat" where
  "scaled m e = (if 0 \<le> e then m * 10 ^ nat e else m / 10 ^ nat (- e))"

definition unsigned_value :: "string \<Rightarrow> number" where
  "unsigned_value s =
     (if s = ''Infinity'' then PosInfinity
      else (case dropWhile is_digit s of
              [] \<Rightarrow> Finite (of_nat (digits_value 10 s))
            | c # q \<Rightarrow>
                if c = CHR ''.''
                then Finite (scaled (of_nat (digits_value 10
                                       (takeWhile is_digit s @ takeWhile is_digit q)))
                               (exponent_value (dropWhile is_digit q)
                                - int (length (takeWhile is_digit q))))
                else Finite (scaled (of_nat (digits_value 10 (takeWhile is_digit s)))
                               (exponent_value (c # q)))))"

definition negated :: "number \<Rightarrow> number" where
  "negated n =
     (case n of
        NaN \<Rightarrow> NaN
      | PosInfinity \<Rightarrow> NegInfinity
      | NegInfinity \<Rightarrow> PosInfinity
      | Finite q \<Rightarrow> Finite (- q))"

definition literal_value :: "string \<Rightarrow> number" where
  "literal_value s =
     (case s of
        [] \<Rightarrow> Finite 0
      | c # r \<Rightarrow>
          if non_decimal_literal s
          then Finite (of_nat (digits_value
                                 (if hd r \<in> set ''xX'' then 16 else if hd r \<in> set ''oO'' then 8
                                  else 2)
                                 (tl r)))
          else if c = CHR ''-'' then negated (unsigned_value r)
          else if c = CHR ''+'' then unsigned_value r
          else unsigned_value s)"

definition example_Number :: "string \<Rightarrow> number" where
  "example_Number s =
     (if trim s = [] then Finite 0
      else if is_numeric_literal (trim s) then literal_value (trim s)
      else NaN)"

definition example_finiteToString :: "rat \<Rightarrow> string" where
  "example_finiteToString q =
     (if q < 0 then ''-'' @ string_of_nat (nat (- \<lfloor>q\<rfloor>)) else string_of_nat (nat \<lfloor>q\<rfloor>))"

definition example_runtime :: runtime where
  "example_runtime =
     \<lparr> Number_of = example_Number,
       finiteToString = example_finiteToString,
       localeCompare = (\<lambda>a b. if ascii_lower a < ascii_lower b then - 1
                               else if ascii_lower a = ascii_lower b then 0 else 1),
       toLowerCase = ascii_lower \<rparr>"

text \<open>
  The collation of the runtime the server runs on puts an underscore before a digit:
  \<open>"Room_2".localeCompare("Room1")\<close> is negative. A runtime that compares these two
  names so, and every other pair as the example runtime does:
\<close>

definition collating_runtime :: runtime where
  "collating_runtime =
     example_runtime
       \<lparr> localeCompare :=
           (\<lambda>a b. if a = ''Room_2'' \<and> b = ''Room1'' then - 1
                   else if a = ''Room1'' \<and> b = ''Room_2'' then 1
                   else localeCompare example_runtime a b) \<rparr>"

subsection \<open>An example home\<close>

text \<open>
  One lamp in the kitchen whose \<open>dim\<close> read fails, three zones, and two flows, one of
  them disabled and not triggerable.
\<close>

definition kitchen_lamp :: device where
  "kitchen_lamp =
     \<lparr> dev_name = Some ''Lamp'', dev_zone = Some (ZoneId ''z1''), dev_class = Some ''light'',
       dev_available = Some True,
       dev_capabilities = Some [''onoff'', ''dim'', ''measure_power''],
       dev_capabilitiesObj =
         Some [(''onoff'', Obj [(''value'', Bool True)]), (''dim'', Obj [(''title'', Str ''Dim'')])],
       dev_driverId = Some ''homey:app:com.example:lamp'',
       dev_manager_uri = Some ''homey:manager:devices'' \<rparr>"

definition example_zones :: "(string \<times> zone) list" where
  "example_zones =
     [(''z1'', \<lparr> zone_name = Some ''Kitchen'' \<rparr>),
      (''z2'', \<lparr> zone_name = Some ''attic'' \<rparr>),
      (''z3'', \<lparr> zone_name = Some ''Bedroom'' \<rparr>)]"

definition night_flow :: flow where
  "night_flow =
     \<lparr> flow_name = Some ''Night'', flow_enabled = Some False, flow_triggerable = Some False,
       flow_folder = None, flow_trigger = None, flow_conditions = None, flow_actions = None \<rparr>"

definition morning_flow :: flow where
  "morning_flow =
     \<lparr> flow_name = Some ''Morning'', flow_enabled = Some True, flow_triggerable = Some True,
       flow_folder = Some ''Daily'',
       flow_trigger = Some \<lparr> card_id = Some ''time_is'', card_uri = Some ''homey:manager:cron'' \<rparr>,
       flow_conditions = Some [\<lparr> card_id = Some ''is_weekday'', card_uri = None \<rparr>],
       flow_actions = Some [\<lparr> card_id = Some ''lights_on'', card_uri = None \<rparr>,
                            \<lparr> card_id = None, card_uri = None \<rparr>] \<rparr>"

definition example_provider :: provider where
  "example_provider =
     \<lparr> getDevices = Inr [(''d1'', kitchen_lamp)],
       getDevice = (\<lambda>i. if i = ''d1'' then Inr (Some kitchen_lamp)
                         else Inl (Error ''Device not found'')),
       setCapabilityValue = (\<lambda>d c v. Inr ()),
       getCapabilityValue = (\<lambda>d c. if c = ''dim'' then Inl (Error ''timeout'')
                                     else if c = ''onoff'' then Inr (Bool True)
                                     else Inr (Num (Finite 42))),
       getZones = Inr example_zones,
       getFlows = Inr [(''f1'', night_flow), (''f2'', morning_flow)],
       getFlow = (\<lambda>i. if i = ''f1'' then Inr (Some night_flow)
                       else if i = ''f2'' then Inr (Some morning_flow)
                       else Inl (Error ''Flow not found'')) \<rparr>"

definition example_tools :: HomeyTools where
  "example_tools = \<lparr> homeyApi = Some example_provider \<rparr>"

definition example_server :: HomeyMCPServer where
  "example_server = \<lparr> homeyTools = example_tools \<rparr>"

text \<open>A provider whose connection is created but whose first \<open>getDevices\<close> fails.\<close>

definition probe_failing_provider :: provider where
  "probe_failing_provider = example_provider \<lparr> getDevices := Inl (Error ''offline'') \<rparr>"

text \<open>A provider with the two zones Room1 and Room\_2.\<close>

definition rooms_provider :: provider where
  "rooms_provider =
     example_provider
       \<lparr> getZones := Inr [(''r1'', \<lparr> zone_name = Some ''Room1'' \<rparr>),
                           (''r2'', \<lparr> zone_name = Some ''Room_2'' \<rparr>)] \<rparr>"

text \<open>A provider whose device declares a capability named \<open>__proto__\<close>.\<close>

definition odd_device :: device where
  "odd_device = kitchen_lamp \<lparr> dev_capabilities := Some [''onoff'', ''__proto__''] \<rparr>"

definition odd_provider :: provider where
  "odd_provider = example_provider \<lparr> getDevice := (\<lambda>i. Inr (Some odd_device)) \<rparr>"

text \<open>A tool name, method or argument that has no text: an object with a \<open>toString\<close> key.\<close>

definition no_text :: jsvalue where
  "no_text = Obj [(''toString'', Num (Finite 1))]"

section \<open>Properties\<close>

lemma string_of_nat_digit: "n < 10 \<Longrightarrow> string_of_nat n = [digit_char n]"
  by (simp add: string_of_nat.simps)

subsection \<open>Handler outcomes and white space\<close>

lemmas io_defs = io_return_def io_throw_def io_lift_def io_call_def io_bind_def io_catch_def

text \<open>Trimming leaves nothing to trim.\<close>

lemma strip_unchanged:
  assumes "\<forall>w \<in> set ws. \<not> (w \<noteq> [] \<and> take (length w) s = w)"
  shows "strip ws s = s"
proof (cases s)
  case Nil
  then show ?thesis by simp
next
  case (Cons c cs)
  with assms have "find (\<lambda>w. w \<noteq> [] \<and> take (length w) (c # cs) = w) ws = None"
    unfolding find_None_iff by blast
  with Cons show ?thesis by simp
qed

lemma strip_no_lead:
  "\<forall>w \<in> set ws. \<not> (w \<noteq> [] \<and> take (length w) (strip ws s) = w)"
proof (induction ws s rule: strip.induct)
  case (1 ws)
  then show ?case by auto
next
  case (2 ws c cs)
  show ?case
  proof (cases "find (\<lambda>w. w \<noteq> [] \<and> take (length w) (c # cs) = w) ws")
    case None
    then have "strip ws (c # cs) = c # cs" by simp
    moreover from None have "\<forall>w \<in> set ws. \<not> (w \<noteq> [] \<and> take (length w) (c # cs) = w)"
      unfolding find_None_iff by blast
    ultimately show ?thesis by simp
  next
    case (Some w)
    then have "strip ws (c # cs) = strip ws (drop (length w - 1) cs)" by simp
    with 2 [OF Some] show ?thesis by simp
  qed
qed

lemma strip_suffix: "\<exists>p. s = p @ strip ws s"
proof (induction ws s rule: strip.induct)
  case (1 ws)
  then show ?case by simp
next
  case (2 ws c cs)
  show ?case
  proof (cases "find (\<lambda>w. w \<noteq> [] \<and> take (length w) (c # cs) = w) ws")
    case None
    then show ?thesis by simp
  next
    case (Some w)
    with 2 obtain p where p: "drop (length w - 1) cs = p @ strip ws (drop (length w - 1) cs)"
      by blast
    have "c # cs = (c # take (length w - 1) cs) @ drop (length w - 1) cs"
      by simp
    with p have "c # cs = ((c # take (length w - 1) cs) @ p) @ strip ws (drop (length w - 1) cs)"
      by simp
    moreover from Some have "strip ws (c # cs) = strip ws (drop (length w - 1) cs)"
      by simp
    ultimately show ?thesis by (intro exI [of _ "(c # take (length w - 1) cs) @ p"]) simp
  qed
qed

lemma lead_of_prefix:
  assumes "w \<noteq> []" and "take (length w) t = w"
  shows "take (length w) (t @ u) = w"
proof -
  from assms(2) have "length (take (length w) t) = length w"
    by simp
  then have "length w \<le> length t"
    by simp
  with assms(2) show ?thesis by simp
qed

lemma trim_idem: "trim (trim s) = trim s"
proof -
  define a where "a = strip white_space s"
  define b where "b = strip (map rev white_space) (rev a)"
  have t: "trim s = rev b"
    by (simp add: trim_def a_def b_def)
  obtain p where "rev a = p @ b"
    unfolding b_def using strip_suffix by blast
  then have "rev (rev a) = rev (p @ b)"
    by simp
  then have a: "a = rev b @ rev p"
    by simp
  have lead: "\<forall>w \<in> set white_space. \<not> (w \<noteq> [] \<and> take (length w) a = w)"
    unfolding a_def by (rule strip_no_lead)
  have "\<forall>w \<in> set white_space. \<not> (w \<noteq> [] \<and> take (length w) (rev b) = w)"
  proof (intro ballI notI)
    fix w
    assume w: "w \<in> set white_space" and "w \<noteq> [] \<and> take (length w) (rev b) = w"
    then have "take (length w) (rev b @ rev p) = w"
      using lead_of_prefix [of w "rev b" "rev p"] by blast
    with a w lead \<open>w \<noteq> [] \<and> take (length w) (rev b) = w\<close> show False
      by blast
  qed
  then have 1: "strip white_space (rev b) = rev b"
    by (rule strip_unchanged)
  have "\<forall>w \<in> set (map rev white_space). \<not> (w \<noteq> [] \<and> take (length w) b = w)"
    unfolding b_def by (rule strip_no_lead)
  then have 2: "strip (map rev white_space) b = b"
    by (rule strip_unchanged)
  show ?thesis
    unfolding t by (simp add: trim_def 1 2)
qed

subsection \<open>Capability value coercion\<close>

lemma unsigned_value_not_NaN: "unsigned_value t \<noteq> NaN"
  by (simp add: unsigned_value_def split: list.split)

lemma literal_value_not_NaN: "literal_value t \<noteq> NaN"
proof (cases t)
  case Nil
  then show ?thesis by (simp add: literal_value_def)
next
  case (Cons c r)
  have "negated (unsigned_value r) \<noteq> NaN"
    using unsigned_value_not_NaN [of r] by (cases "unsigned_value r") (simp_all add: negated_def)
  with Cons show ?thesis
    using unsigned_value_not_NaN [of r] unsigned_value_not_NaN [of "c # r"]
    by (simp add: literal_value_def)
qed

lemma example_Number_reads_literals: "Number_reads_literals example_runtime"
  by (simp add: Number_reads_literals_def example_runtime_def example_Number_def trim_idem
      literal_value_not_NaN)

lemma numeric_texts:
  "parses_as_number '' 42 ''" "parses_as_number ''-1.5e3''" "parses_as_number ''0x1F''"
  "\<not> parses_as_number '' on ''" "\<not> parses_as_number ''12px''"
  "\<not> parses_as_number [CHR 0xC2, CHR 0xA0]"
  by (simp_all add: parses_as_number_def trim_def white_space_def
      is_numeric_literal_def decimal_literal_def unsigned_decimal_literal_def
      non_decimal_literal_def exponent_part_def digits_of_def is_digit_def)

lemma example_numbers:
  "Number_of example_runtime '' 42 '' = Finite 42"
  "Number_of example_runtime ''-1.5e3'' = Finite (- 1500)"
  "Number_of example_runtime ''0x1F'' = Finite 31"
  by (simp_all add: example_runtime_def example_Number_def trim_def white_space_def
      is_numeric_literal_def decimal_literal_def unsigned_decimal_literal_def
      non_decimal_literal_def exponent_part_def digits_of_def is_digit_def
      literal_value_def unsigned_value_def digits_value_def digit_value_def
      exponent_value_def scaled_def negated_def)

text \<open>
  C2. The capability value coercion, rule by rule, where \<open>Number\<close> reads numeric
  literals as JavaScript defines it (it yields NaN exactly for a text that, trimmed of white
  space, is neither empty nor a numeric literal, and it ignores surrounding white space):
  null and undefined are rejected; a boolean and a finite number are returned unchanged; NaN
  and the two infinities are rejected; the texts \<open>true\<close> and \<open>false\<close>
  become the booleans; any other non-empty text that, trimmed, is a numeric literal becomes
  the number \<open>Number\<close> reads from it, which is not NaN; any other non-empty text is
  returned unchanged; the empty text is rejected; an array and an object are rejected with a
  message naming the type \<open>object\<close>.
\<close>
theorem validateCapabilityValue_rules:
  assumes "Number_reads_literals R"
  shows
  "validateCapabilityValue R Null = Inl (Error ''Capability value cannot be null or undefined'')
   \<and> validateCapabilityValue R Undefined
       = Inl (Error ''Capability value cannot be null or undefined'')
   \<and> validateCapabilityValue R (Bool b) = Inr (Bool b)
   \<and> validateCapabilityValue R (Num (Finite q)) = Inr (Num (Finite q))
   \<and> validateCapabilityValue R (Num NaN) = Inl (Error ''Capability value cannot be NaN or Infinity'')
   \<and> validateCapabilityValue R (Num PosInfinity)
       = Inl (Error ''Capability value cannot be NaN or Infinity'')
   \<and> validateCapabilityValue R (Num NegInfinity)
       = Inl (Error ''Capability value cannot be NaN or Infinity'')
   \<and> validateCapabilityValue R (Str ''true'') = Inr (Bool True)
   \<and> validateCapabilityValue R (Str ''false'') = Inr (Bool False)
   \<and> (s \<noteq> [] \<and> s \<noteq> ''true'' \<and> s \<noteq> ''false'' \<and> parses_as_number s
        \<longrightarrow> validateCapabilityValue R (Str s) = Inr (Num (Number_of R s))
            \<and> Number_of R s \<noteq> NaN)
   \<and> (s \<noteq> [] \<and> s \<noteq> ''true'' \<and> s \<noteq> ''false'' \<and> \<not> parses_as_number s
        \<longrightarrow> validateCapabilityValue R (Str s) = Inr (Str s))
   \<and> validateCapabilityValue R (Str [])
       = Inl (Error ''Capability value cannot be an empty string'')
   \<and> validateCapabilityValue R (Arr vs)
       = Inl (Error
           ''Invalid capability value type: expected string, number, or boolean, got object'')
   \<and> validateCapabilityValue R (Obj ps)
       = Inl (Error
           ''Invalid capability value type: expected string, number, or boolean, got object'')"
proof -
  from assms have nan: "(Number_of R t = NaN) = (trim t \<noteq> [] \<and> \<not> is_numeric_literal (trim t))"
    and pad: "Number_of R (trim t) = Number_of R t" for t
    by (simp_all add: Number_reads_literals_def)
  have num: "validateCapabilityValue R (Str s) = Inr (Num (Number_of R s)) \<and> Number_of R s \<noteq> NaN"
    if "s \<noteq> []" "s \<noteq> ''true''" "s \<noteq> ''false''" "parses_as_number s"
    using that nan [of s] pad [of s]
    by (simp add: validateCapabilityValue_def parses_as_number_def isNaN_def Let_def)
  have plain: "validateCapabilityValue R (Str s) = Inr (Str s)"
    if "s \<noteq> []" "s \<noteq> ''true''" "s \<noteq> ''false''" "\<not> parses_as_number s"
  proof (cases "trim s = []")
    case True
    with that show ?thesis
      by (simp add: validateCapabilityValue_def Let_def)
  next
    case False
    with that nan [of s] pad [of s] have "Number_of R (trim s) = NaN"
      by (simp add: parses_as_number_def)
    with that show ?thesis
      by (simp add: validateCapabilityValue_def isNaN_def Let_def)
  qed
  have r1: "validateCapabilityValue R Null
        = Inl (Error ''Capability value cannot be null or undefined'')"
    and r2: "validateCapabilityValue R Undefined
       = Inl (Error ''Capability value cannot be null or undefined'')"
    and r3: "validateCapabilityValue R (Bool b) = Inr (Bool b)"
    and r4: "validateCapabilityValue R (Num (Finite q)) = Inr (Num (Finite q))"
    and r5: "validateCapabilityValue R (Num NaN)
       = Inl (Error ''Capability value cannot be NaN or Infinity'')"
    and r6: "validateCapabilityValue R (Num PosInfinity)
       = Inl (Error ''Capability value cannot be NaN or Infinity'')"
    and r7: "validateCapabilityValue R (Num NegInfinity)
       = Inl (Error ''Capability value cannot be NaN or Infinity'')"
    and r8: "validateCapabilityValue R (Str ''true'') = Inr (Bool True)"
    and r9: "validateCapabilityValue R (Str ''false'') = Inr (Bool False)"
    and r10: "validateCapabilityValue R (Str [])
       = Inl (Error ''Capability value cannot be an empty string'')"
    and r11: "validateCapabilityValue R (Arr vs)
       = Inl (Error
           ''Invalid capability value type: expected string, number, or boolean, got object'')"
    and r12: "validateCapabilityValue R (Obj ps)
       = Inl (Error
           ''Invalid capability value type: expected string, number, or boolean, got object'')"
    by (simp_all add: validateCapabilityValue_def isFinite_def)
  show ?thesis
    using num plain by (intro conjI impI r1 r2 r3 r4 r5 r6 r7 r8 r9 r10 r11 r12) simp_all
qed

theorem validateCapabilityValue_rules_witness:
  "Number_reads_literals example_runtime
   \<and> validateCapabilityValue example_runtime (Str '' 42 '') = Inr (Num (Finite 42))
   \<and> validateCapabilityValue example_runtime (Str ''-1.5e3'') = Inr (Num (Finite (- 1500)))
   \<and> validateCapabilityValue example_runtime (Str ''0x1F'') = Inr (Num (Finite 31))
   \<and> validateCapabilityValue example_runtime (Str '' on '') = Inr (Str '' on '')
   \<and> validateCapabilityValue example_runtime (Str ''12px'') = Inr (Str ''12px'')
   \<and> validateCapabilityValue example_runtime (Str [CHR 0xC2, CHR 0xA0])
       = Inr (Str [CHR 0xC2, CHR 0xA0])
   \<and> validateCapabilityValue example_runtime (Str ''true'') = Inr (Bool True)
   \<and> validateCapabilityValue example_runtime (Arr [])
       = Inl (Error
           ''Invalid capability value type: expected string, number, or boolean, got object'')"
proof -
  note R = example_Number_reads_literals
  from validateCapabilityValue_rules [OF R, where s = "'' 42 ''"] numeric_texts example_numbers
  have a: "validateCapabilityValue example_runtime (Str '' 42 '') = Inr (Num (Finite 42))"
    by simp
  from validateCapabilityValue_rules [OF R, where s = "''-1.5e3''"] numeric_texts example_numbers
  have b: "validateCapabilityValue example_runtime (Str ''-1.5e3'') = Inr (Num (Finite (- 1500)))"
    by simp
  from validateCapabilityValue_rules [OF R, where s = "''0x1F''"] numeric_texts example_numbers
  have c: "validateCapabilityValue example_runtime (Str ''0x1F'') = Inr (Num (Finite 31))"
    by simp
  from validateCapabilityValue_rules [OF R, where s = "'' on ''"] numeric_texts
  have d: "validateCapabilityValue example_runtime (Str '' on '') = Inr (Str '' on '')"
    by simp
  from validateCapabilityValue_rules [OF R, where s = "''12px''"] numeric_texts
  have e: "validateCapabilityValue example_runtime (Str ''12px'') = Inr (Str ''12px'')"
    by simp
  from validateCapabilityValue_rules [OF R, where s = "[CHR 0xC2, CHR 0xA0]"] numeric_texts
  have f: "validateCapabilityValue example_runtime (Str [CHR 0xC2, CHR 0xA0])
       = Inr (Str [CHR 0xC2, CHR 0xA0])"
    by simp
  from validateCapabilityValue_rules [OF R, where vs = "[]"]
  have g: "validateCapabilityValue example_runtime (Str ''true'') = Inr (Bool True)"
    and h: "validateCapabilityValue example_runtime (Arr [])
       = Inl (Error
           ''Invalid capability value type: expected string, number, or boolean, got object'')"
    by simp_all
  from R a b c d e f g h show ?thesis by simp
qed

subsection \<open>What a handler can throw, and the outcome of a tool call\<close>

lemma collect_Inl: "collect xs = Inl e \<Longrightarrow> Inl e \<in> set xs"
proof (induction xs)
  case Nil
  then show ?case by simp
next
  case (Cons x xs)
  show ?case
  proof (cases x)
    case (Inl a)
    with Cons.prems show ?thesis by simp
  next
    case (Inr b)
    with Cons.prems have "collect xs = Inl e" by (cases "collect xs") simp_all
    then show ?thesis using Cons.IH by simp
  qed
qed

lemma toStr_throws:
  "toStr R v = Inl e \<Longrightarrow> e = Error ''Cannot convert object to primitive value''"
proof (induction R v arbitrary: e rule: toStr.induct)
  case (6 R vs)
  from "6.prems" have "collect (map (\<lambda>v. if v = Null \<or> v = Undefined then Inr [] else toStr R v) vs)
        = Inl e"
    by (cases "collect (map (\<lambda>v. if v = Null \<or> v = Undefined then Inr [] else toStr R v) vs)")
       simp_all
  then have "Inl e \<in> set (map (\<lambda>v. if v = Null \<or> v = Undefined then Inr [] else toStr R v) vs)"
    by (rule collect_Inl)
  then obtain v where v: "v \<in> set vs"
      "Inl e = (if v = Null \<or> v = Undefined then Inr [] else toStr R v)"
    unfolding set_map by blast
  from v(2) have n: "\<not> (v = Null \<or> v = Undefined)"
    by (cases "v = Null \<or> v = Undefined") simp_all
  with v(2) have "toStr R v = Inl e" by simp
  with v(1) n show ?case by (rule "6.IH")
next
  case (7 R ps)
  then show ?case by (cases "map_of ps ''toString'' \<noteq> None") simp_all
qed simp_all

lemma error_text_throws:
  "error_text R err = Inl e \<Longrightarrow> e = Error ''Cannot convert object to primitive value''"
  by (cases err) (simp_all add: error_text_def toStr_throws)

lemma rethrow_Error: "\<exists>m. rethrow R c err = (Inl (Error m), [])"
proof (cases "error_text R err")
  case (Inl e)
  then have "e = Error ''Cannot convert object to primitive value''"
    by (rule error_text_throws)
  with Inl show ?thesis
    by (simp add: rethrow_def formatErrorMessage_def io_throw_def)
next
  case (Inr m)
  then show ?thesis
    by (simp add: rethrow_def formatErrorMessage_def io_throw_def)
qed

lemma catch_rethrow_Error:
  fixes m :: "'a io"
  assumes "io_catch m (rethrow R c) = (Inl e, t)"
  shows "\<exists>msg. e = Error msg"
proof (cases m)
  case (Pair r t')
  show ?thesis
  proof (cases r)
    case (Inl err)
    obtain msg where r: "(rethrow R c err :: 'a io) = (Inl (Error msg), [])"
      using rethrow_Error by blast
    from assms Pair Inl have "e = Error msg" by (simp add: io_catch_def r)
    then show ?thesis by blast
  next
    case (Inr x)
    with assms Pair show ?thesis by (simp add: io_catch_def)
  qed
qed

lemma handler_throws:
  "listDevices R tools z = (Inl e, t) \<Longrightarrow> \<exists>msg. e = Error msg"
  "controlDevice R tools d c v = (Inl e, t) \<Longrightarrow> \<exists>msg. e = Error msg"
  "getDeviceInfo R tools d = (Inl e, t) \<Longrightarrow> \<exists>msg. e = Error msg"
  "listZones R tools = (Inl e, t) \<Longrightarrow> \<exists>msg. e = Error msg"
  "listFlows R tools eo = (Inl e, t) \<Longrightarrow> \<exists>msg. e = Error msg"
  "triggerFlow R tools f = (Inl e, t) \<Longrightarrow> \<exists>msg. e = Error msg"
  "getFlowInfo R tools f = (Inl e, t) \<Longrightarrow> \<exists>msg. e = Error msg"
  unfolding listDevices_def controlDevice_def getDeviceInfo_def listZones_def listFlows_def
    triggerFlow_def getFlowInfo_def Let_def
  by (erule catch_rethrow_Error)+

lemma unknown_tool_throws:
  assumes "(case toStr R name of Inl e \<Rightarrow> io_throw e
            | Inr n \<Rightarrow> io_throw (Error (''Unknown tool: '' @ n))) = ((Inl e, t) :: string io)"
  shows "\<exists>msg. e = Error msg"
proof (cases "toStr R name")
  case (Inl a)
  then have "a = Error ''Cannot convert object to primitive value''" by (rule toStr_throws)
  with assms Inl show ?thesis by (auto simp add: io_throw_def)
next
  case (Inr n)
  with assms show ?thesis by (auto simp add: io_throw_def)
qed

lemma executeTool_throws:
  assumes "executeTool R this name args = (Inl e, t)"
  shows "\<exists>msg. e = Error msg"
proof -
  consider "name = Str ''list_devices''" | "name = Str ''control_device''"
    | "name = Str ''get_device_info''" | "name = Str ''list_zones''"
    | "name = Str ''list_flows''" | "name = Str ''trigger_flow''"
    | "name = Str ''get_flow_info''"
    | "name \<noteq> Str ''list_devices''" "name \<noteq> Str ''control_device''"
      "name \<noteq> Str ''get_device_info''" "name \<noteq> Str ''list_zones''"
      "name \<noteq> Str ''list_flows''" "name \<noteq> Str ''trigger_flow''"
      "name \<noteq> Str ''get_flow_info''"
    by blast
  then show ?thesis
  proof cases
    case 1
    with assms show ?thesis by (simp add: executeTool_def handler_throws(1))
  next
    case 2
    with assms show ?thesis by (simp add: executeTool_def handler_throws(2))
  next
    case 3
    with assms show ?thesis by (simp add: executeTool_def handler_throws(3))
  next
    case 4
    with assms show ?thesis by (simp add: executeTool_def handler_throws(4))
  next
    case 5
    with assms show ?thesis by (simp add: executeTool_def handler_throws(5))
  next
    case 6
    with assms show ?thesis by (simp add: executeTool_def handler_throws(6))
  next
    case 7
    with assms show ?thesis by (simp add: executeTool_def handler_throws(7))
  next
    case 8
    with assms have "(case toStr R name of Inl e \<Rightarrow> io_throw e
            | Inr n \<Rightarrow> io_throw (Error (''Unknown tool: '' @ n))) = ((Inl e, t) :: string io)"
      by (simp add: executeTool_def)
    then show ?thesis by (rule unknown_tool_throws)
  qed
qed

lemma error_of_Error:
  "error R i code message (Some (Error m)) = Inr (Failure i code message (Some m))"
  by (simp add: error_def)

lemma handleToolCall_run:
  "handleToolCall R this request =
     (case executeTool R this (requested_tool request) (requested_arguments request) of
        (Inr content, t) \<Rightarrow>
          (Inr (success (get_prop request ''id'') (ToolCallResult content)), t)
      | (Inl err, t) \<Rightarrow>
          (case toStr R (requested_tool request) of
             Inl e \<Rightarrow> (Inl e, t)
           | Inr n \<Rightarrow>
               (error R (get_prop request ''id'') (- 32603) (''Tool failed: '' @ n) (Some err), t)))"
  unfolding handleToolCall_def requested_tool_def requested_arguments_def Let_def ..

text \<open>
  A \<open>tools/call\<close> whose tool name has a text: the response is the tool's text or a
  tool failure carrying the message of what the tool threw.
\<close>

lemma handleToolCall_outcome:
  assumes "toStr R (requested_tool request) = Inr n"
  shows "handleToolCall R this request =
     (case executeTool R this (requested_tool request) (requested_arguments request) of
        (Inr content, t) \<Rightarrow> (Inr (Success (get_prop request ''id'') (ToolCallResult content)), t)
      | (Inl err, t) \<Rightarrow>
          (Inr (Failure (get_prop request ''id'') (- 32603) (''Tool failed: '' @ n)
                  (Some (case err of Error m \<Rightarrow> m | Raised v \<Rightarrow> []))), t))"
proof (cases "executeTool R this (requested_tool request) (requested_arguments request)")
  case (Pair r t)
  show ?thesis
  proof (cases r)
    case (Inl err)
    with Pair obtain m where "err = Error m" using executeTool_throws by blast
    with Pair Inl assms show ?thesis
      by (simp add: handleToolCall_run error_of_Error)
  next
    case (Inr content)
    with Pair assms show ?thesis
      by (simp add: handleToolCall_run success_def)
  qed
qed

lemma toolCall_reads:
  "get_prop (toolCall i name args) ''id'' = i"
  "get_prop (toolCall i name args) ''method'' = Str ''tools/call''"
  "requested_tool (toolCall i name args) = name"
  "requested_arguments (toolCall i name args) = Obj args"
  "toolCall i name args \<noteq> Null" "toolCall i name args \<noteq> Undefined"
  by (simp_all add: toolCall_def requested_tool_def requested_arguments_def)

lemma handleMCPRequest_tools_call:
  assumes "request \<noteq> Null" "request \<noteq> Undefined"
    and "get_prop request ''method'' = Str ''tools/call''"
  shows "handleMCPRequest R this request = handleToolCall R this request"
proof -
  have "dispatch R this request
      = (case handleToolCall R this request of (outcome, t) \<Rightarrow> (Inr outcome, t))"
    using assms(3) by (simp add: dispatch_def)
  with assms show ?thesis
    by (cases "handleToolCall R this request") (simp add: handleMCPRequest_def)
qed

lemma handleMCPRequest_toolCall:
  assumes "toStr R name = Inr n"
  shows "handleMCPRequest R this (toolCall i name args) =
     (case executeTool R this name (Obj args) of
        (Inr content, t) \<Rightarrow> (Inr (Success i (ToolCallResult content)), t)
      | (Inl err, t) \<Rightarrow>
          (Inr (Failure i (- 32603) (''Tool failed: '' @ n)
                  (Some (case err of Error m \<Rightarrow> m | Raised v \<Rightarrow> []))), t))"
proof -
  have "handleMCPRequest R this (toolCall i name args) = handleToolCall R this (toolCall i name args)"
    by (rule handleMCPRequest_tools_call) (simp_all add: toolCall_reads)
  then show ?thesis
    using handleToolCall_outcome [of R "toolCall i name args" n this] assms
    by (simp add: toolCall_reads split: prod.splits sum.splits)
qed

subsection \<open>C1: control\_device sends the value as supplied\<close>

text \<open>
  C1. \<open>controlDevice\<close> validates the device id and the capability name and passes
  \<open>value\<close> on untouched; \<open>validateCapabilityValue\<close> is not called. The text "true",
  which the coercion turns into the boolean, reaches \<open>setCapabilityValue\<close> as a text,
  and \<open>null\<close>, which the coercion rejects, reaches it too.
\<close>

theorem controlDevice_sends_raw_value:
  "validateCapabilityValue example_runtime (Str ''true'') = Inr (Bool True)
   \<and> handleMCPRequest example_runtime \<lparr> homeyTools = example_tools \<rparr>
        (toolCall (Num (Finite 1)) (Str ''control_device'')
           [(''device_id'', Str ''d1''), (''capability'', Str ''onoff''), (''value'', Str ''true'')])
      = (Inr (Success (Num (Finite 1))
           (ToolCallResult (''Successfully set onoff to true for device '' @ [CHR 0x22] @ ''Lamp''
                            @ [CHR 0x22] @ '' (d1)''))),
         [SetCapabilityValue ''d1'' ''onoff'' (Str ''true''), GetDevice ''d1''])
   \<and> validateCapabilityValue example_runtime Null
        = Inl (Error ''Capability value cannot be null or undefined'')
   \<and> handleMCPRequest example_runtime \<lparr> homeyTools = example_tools \<rparr>
        (toolCall (Num (Finite 2)) (Str ''control_device'')
           [(''device_id'', Str ''d1''), (''capability'', Str ''onoff''), (''value'', Null)])
      = (Inr (Success (Num (Finite 2))
           (ToolCallResult (''Successfully set onoff to null for device '' @ [CHR 0x22] @ ''Lamp''
                            @ [CHR 0x22] @ '' (d1)''))),
         [SetCapabilityValue ''d1'' ''onoff'' Null, GetDevice ''d1''])"
proof -
  have n: "toStr example_runtime (Str ''control_device'') = Inr ''control_device''"
    by simp
  show ?thesis
    by (simp add: validateCapabilityValue_def handleMCPRequest_toolCall [OF n] executeTool_def
        controlDevice_def io_defs validateDeviceId_def validateCapability_def
        ensureInitialized_def example_tools_def example_provider_def kitchen_lamp_def
        or_default_def)
qed

end
